theory Spec2Isabelle
  imports Complex_Main
begin

section \<open>Python values used by TexasHistoricalMarkerCSVtoJSON.py\<close>

text \<open>
  A Python \<open>str\<close> is a sequence of Unicode code points; a code point is a natural
  number. \<open>py\<close> turns an ASCII literal of the script into such a sequence.
\<close>

type_synonym pystr = "nat list"

definition py :: "string \<Rightarrow> pystr" where
  "py s = map of_char s"

text \<open>
  \<open>str.strip()\<close> without an argument removes leading and trailing whitespace, where
  whitespace is what \<open>str.isspace\<close> accepts: the code points U+0009..U+000D,
  U+001C..U+0020, U+0085, U+00A0, U+1680, U+2000..U+200A, U+2028, U+2029, U+202F,
  U+205F and U+3000.
\<close>

definition isspace :: "nat \<Rightarrow> bool" where
  "isspace c \<longleftrightarrow> c \<in> set [9, 10, 11, 12, 13, 28, 29, 30, 31, 32, 133, 160, 5760,
     8192, 8193, 8194, 8195, 8196, 8197, 8198, 8199, 8200, 8201, 8202,
     8232, 8233, 8239, 8287, 12288]"

definition strip :: "pystr \<Rightarrow> pystr" where
  "strip s = rev (dropWhile isspace (rev (dropWhile isspace s)))"

text \<open>
  The values the script builds and hands to \<open>json.dump\<close>: \<open>None\<close>, strings, floats,
  lists, and dicts with string keys. A dict keeps its insertion order, so it is an
  association list. The float type is a parameter: the script never computes with a
  float, it only obtains one from \<open>float(...)\<close> or from the literal \<open>0.9\<close>.
\<close>

datatype 'f pyval =
    PNone
  | PStr pystr
  | PFloat 'f
  | PList "'f pyval list"
  | PDict "(pystr \<times> 'f pyval) list"

text \<open>\<open>d[k]\<close> on a dict value; \<open>None\<close> when the key is missing or the value is no dict.\<close>

fun dict_get :: "'f pyval \<Rightarrow> pystr \<Rightarrow> 'f pyval option" where
  "dict_get (PDict kvs) k = map_of kvs k"
| "dict_get _ k = None"

fun dict_keys :: "'f pyval \<Rightarrow> pystr list" where
  "dict_keys (PDict kvs) = map fst kvs"
| "dict_keys _ = []"

datatype pyerror = FileNotFoundError | AttributeError | ValueError

section \<open>The library the script calls\<close>

text \<open>
  The script calls \<open>float\<close>, \<open>csv.reader\<close> (inside \<open>csv.DictReader\<close>), \<open>json.dump\<close>
  in two configurations and \<open>gzip.open\<close>. None of them is code of this repository, so
  they are parameters of the model:
  \<^item> \<open>py_float s\<close> is \<open>float(s)\<close> on a string, \<open>None\<close> when it raises \<open>ValueError\<close>;
  \<^item> \<open>lit_0_9\<close> is the float the literal \<open>0.9\<close> denotes;
  \<^item> \<open>csv_reader\<close> splits the decoded input file into its rows of fields, the header
    row included, a blank line giving the empty row, as iterating \<open>csv.reader\<close> does;
  \<^item> \<open>json_dump_indent2\<close> is \<open>json.dump(_, f, ensure_ascii=False, indent=2)\<close> and
    \<open>json_dump_compact\<close> is \<open>json.dump(_, f)\<close>, as the text written;
  \<^item> \<open>gzip_wt t\<close> is what a \<open>gzip.open(_, "wt", encoding="utf-8")\<close> stream opened
    at time \<open>t\<close> stores for the text written to it (the gzip header holds the time).
\<close>

record ('f, 'b) pylib =
  py_float :: "pystr \<Rightarrow> 'f option"
  lit_0_9 :: 'f
  csv_reader :: "'b \<Rightarrow> pystr list list"
  json_dump_indent2 :: "'f pyval \<Rightarrow> 'b"
  json_dump_compact :: "'f pyval \<Rightarrow> 'b"
  gzip_wt :: "nat \<Rightarrow> 'b \<Rightarrow> 'b"

section \<open>csv.DictReader\<close>

text \<open>
  A cell of a row dict is a string or, for a column the row is too short to reach,
  \<open>None\<close> (\<open>restval\<close>). A row dict maps column names to cells. For a row longer than
  the header \<open>DictReader\<close> also stores the surplus fields under the key \<open>None\<close>
  (\<open>restkey\<close>); the script looks up string keys only, so that entry is left out.
\<close>

datatype cell = CStr pystr | CNone

type_synonym dictrow = "pystr \<rightharpoonup> cell"

text \<open>
  \<^verbatim>\<open>
  d = dict(zip(self.fieldnames, row))
  lf = len(self.fieldnames)
  lr = len(row)
  if lf < lr:
      d[self.restkey] = row[lf:]
  elif lf > lr:
      for key in self.fieldnames[lr:]:
          d[key] = self.restval
  \<close>
\<close>

definition dict_row :: "pystr list \<Rightarrow> pystr list \<Rightarrow> dictrow" where
  "dict_row fieldnames row =
     (let d = fold (\<lambda>(k, v) d. d(k \<mapsto> CStr v)) (zip fieldnames row) Map.empty;
          lf = length fieldnames;
          lr = length row
      in if lf < lr then d
         else if lf > lr then fold (\<lambda>key d. d(key \<mapsto> CNone)) (drop lr fieldnames) d
         else d)"

text \<open>
  The first row the reader yields is the header; every later row that is not blank
  becomes a row dict, in file order. An input with no row at all has no header and
  yields nothing.
\<close>

fun DictReader :: "pystr list list \<Rightarrow> dictrow list" where
  "DictReader [] = []"
| "DictReader (fieldnames # rows) =
     map (dict_row fieldnames) (filter (\<lambda>row. row \<noteq> []) rows)"

section \<open>The record of one row\<close>

text \<open>\<open>row.get(k, d)\<close> with a string default.\<close>

definition row_get :: "dictrow \<Rightarrow> pystr \<Rightarrow> pystr \<Rightarrow> cell" where
  "row_get row k d = (case row k of None \<Rightarrow> CStr d | Some v \<Rightarrow> v)"

text \<open>\<open>v.strip()\<close>: \<open>None\<close> has no such attribute.\<close>

fun str_strip :: "cell \<Rightarrow> pyerror + pystr" where
  "str_strip (CStr s) = Inr (strip s)"
| "str_strip CNone = Inl AttributeError"

fun cell_val :: "cell \<Rightarrow> 'f pyval" where
  "cell_val (CStr s) = PStr s"
| "cell_val CNone = PNone"

text \<open>
  \<^verbatim>\<open>float(row[k]) if row.get(k) else None\<close>: a missing key, \<open>None\<close> and the empty
  string are false.
\<close>

definition coordinate :: "('f, 'b) pylib \<Rightarrow> dictrow \<Rightarrow> pystr \<Rightarrow> pyerror + 'f pyval" where
  "coordinate lib row k =
     (case row k of
        None \<Rightarrow> Inr PNone
      | Some CNone \<Rightarrow> Inr PNone
      | Some (CStr s) \<Rightarrow>
          if s = [] then Inr PNone
          else (case py_float lib s of
                  None \<Rightarrow> Inl ValueError
                | Some x \<Rightarrow> Inr (PFloat x)))"

text \<open>
  The dict display of the loop body. Its items are evaluated in the order written, so
  the first failing one decides the exception.
\<close>

definition make_rec :: "('f, 'b) pylib \<Rightarrow> dictrow \<Rightarrow> pyerror + 'f pyval" where
  "make_rec lib row =
     (case str_strip (row_get row (py ''AtlasNumber'') []) of
        Inl e \<Rightarrow> Inl e
      | Inr atlas \<Rightarrow>
     (case str_strip (row_get row (py ''MarkerTitle'') []) of
        Inl e \<Rightarrow> Inl e
      | Inr title \<Rightarrow>
     (case str_strip (row_get row (py ''MarkerText'') []) of
        Inl e \<Rightarrow> Inl e
      | Inr description \<Rightarrow>
     (case coordinate lib row (py ''Latitude'') of
        Inl e \<Rightarrow> Inl e
      | Inr latitude \<Rightarrow>
     (case coordinate lib row (py ''Longitude'') of
        Inl e \<Rightarrow> Inl e
      | Inr longitude \<Rightarrow>
        Inr (PDict
          [(py ''id'', PStr (py ''tx-thc-'' @ atlas)),
           (py ''title'', PStr title),
           (py ''description'', PStr description),
           (py ''date_installed'', cell_val (row_get row (py ''YearMarkerErected'') [])),
           (py ''coordinates'', PDict
              [(py ''latitude'', latitude),
               (py ''longitude'', longitude)]),
           (py ''address'', PDict
              [(py ''city'', cell_val (row_get row (py ''City'') [])),
               (py ''county'', cell_val (row_get row (py ''County'') [])),
               (py ''state'', PStr (py ''TX''))]),
           (py ''images'', PList []),
           (py ''source'', PList [PDict
              [(py ''name'', PStr (py ''Texas Historical Commission'')),
               (py ''url'', PStr (py ''https://atlas.thc.texas.gov/Data/DataDownload'')),
               (py ''source_id'', cell_val (row_get row (py ''AtlasNumber'') []))]]),
           (py ''type'', PStr (py ''state marker (TX)'')),
           (py ''tags'', PList []),
           (py ''confidence'', PFloat (lit_0_9 lib))]))))))"

section \<open>The run\<close>

text \<open>
  \<^verbatim>\<open>
  records = []
  for row in reader:
      rec = {...}
      records.append(rec)
  \<close>
  The loop, with the list built so far as its state; an exception ends it.
\<close>

fun convert_rows :: "('f, 'b) pylib \<Rightarrow> dictrow list \<Rightarrow> 'f pyval list \<Rightarrow> pyerror + 'f pyval list" where
  "convert_rows lib [] records = Inr records"
| "convert_rows lib (row # rows) records =
     (case make_rec lib row of
        Inl e \<Rightarrow> Inl e
      | Inr r \<Rightarrow> convert_rows lib rows (records @ [r]))"

definition INPUT :: pystr where
  "INPUT = py ''Historical Marker_20251112_113626_6777607.csv''"

definition OUTPUT :: pystr where
  "OUTPUT = py ''tx_historical_markers.json''"

definition ZIP :: pystr where
  "ZIP = py ''tx_historical_markers.json.gz''"

text \<open>
  The whole script, started at time \<open>now\<close> on a file system (file name to content). It
  returns the file system it leaves and either the exception that ended it or the
  number of records it reports on standard output. Both files are written after the
  loop, from the same list. The only failure of a library call in the model is the
  missing input file; an input that cannot be decoded or an output path that cannot be
  opened is outside it.
\<close>

definition run :: "('f, 'b) pylib \<Rightarrow> nat \<Rightarrow> (pystr \<rightharpoonup> 'b) \<Rightarrow> (pystr \<rightharpoonup> 'b) \<times> (pyerror + nat)" where
  "run lib now fs =
     (case fs INPUT of
        None \<Rightarrow> (fs, Inl FileNotFoundError)
      | Some content \<Rightarrow>
          (case convert_rows lib (DictReader (csv_reader lib content)) [] of
             Inl e \<Rightarrow> (fs, Inl e)
           | Inr records \<Rightarrow>
               (let fs1 = fs(OUTPUT \<mapsto> json_dump_indent2 lib (PList records));
                    fs2 = fs1(ZIP \<mapsto> gzip_wt lib now (json_dump_compact lib (PList records)))
                in (fs2, Inr (length records)))))"

section \<open>Sample inputs\<close>

text \<open>
  Concrete inputs on which the theorems below are instantiated. The library is
  instantiated freely: each output of \<open>json.dump\<close> and \<open>gzip\<close> is the term that names
  the call, the input file is given by its rows, floats are rational numbers, and
  \<open>sample_float\<close> accepts the numerals of the sample rows and rejects every other string.
\<close>

datatype sample_content =
    Rows "pystr list list"
  | Indented "rat pyval"
  | Compact "rat pyval"
  | Gzipped nat sample_content

definition sample_float :: "pystr \<Rightarrow> rat option" where
  "sample_float s =
     (if s = py ''29.4260'' then Some (14713 / 500)
      else if s = py ''-98.4861'' then Some (- 984861 / 10000)
      else None)"

fun sample_rows :: "sample_content \<Rightarrow> pystr list list" where
  "sample_rows (Rows rs) = rs"
| "sample_rows _ = []"

definition sample_lib :: "(rat, sample_content) pylib" where
  "sample_lib = \<lparr>py_float = sample_float, lit_0_9 = 9 / 10, csv_reader = sample_rows,
     json_dump_indent2 = Indented, json_dump_compact = Compact, gzip_wt = Gzipped\<rparr>"

text \<open>Decoders for the free library: \<open>json.load\<close> and reading a gzip stream back.\<close>

fun sample_loads :: "sample_content \<Rightarrow> rat pyval option" where
  "sample_loads (Indented v) = Some v"
| "sample_loads (Compact v) = Some v"
| "sample_loads _ = None"

fun sample_gunzip :: "sample_content \<Rightarrow> sample_content option" where
  "sample_gunzip (Gzipped t c) = Some c"
| "sample_gunzip _ = None"

definition header :: "pystr list" where
  "header = [py ''AtlasNumber'', py ''MarkerTitle'', py ''MarkerText'',
     py ''YearMarkerErected'', py ''Latitude'', py ''Longitude'', py ''City'', py ''County'']"

text \<open>The row of the Alamo scenario, the title padded with a space on each side.\<close>

definition alamo :: "pystr list" where
  "alamo = [py ''5535'', py '' Alamo '', py ''Remember the Alamo.'', py ''1936'',
     py ''29.4260'', py ''-98.4861'', py ''San Antonio'', py ''Bexar'']"

text \<open>A row with padded fields and empty coordinates.\<close>

definition padded :: "pystr list" where
  "padded = [py '' 77 '', py ''Old Mill'', py '' A mill. '', py '' 1965 '',
     [], [], py '' Waco '', py '' McLennan '']"

text \<open>A row whose latitude is no number.\<close>

definition malformed :: "pystr list" where
  "malformed = [py ''12'', py ''Fort'', py ''A fort.'', py ''1970'',
     py ''N/A'', py ''-98.4861'', py ''Austin'', py ''Travis'']"

text \<open>Rows shorter than the header: one ends after the text, one after the title.\<close>

definition short3 :: "pystr list" where
  "short3 = [py ''9'', py ''Well'', py ''A well.'']"

definition short2 :: "pystr list" where
  "short2 = [py ''9'', py ''Well'']"

definition sample_fs :: "sample_content \<Rightarrow> pystr \<rightharpoonup> sample_content" where
  "sample_fs content = [INPUT \<mapsto> content]"

section \<open>Auxiliary facts\<close>

subsection \<open>Strings\<close>

lemma py_eq_iff [simp]: "py a = py b \<longleftrightarrow> a = b"
proof -
  have "inj (of_char :: char \<Rightarrow> nat)"
    by (rule inj_of_char)
  then have "inj (map (of_char :: char \<Rightarrow> nat))"
    by simp
  then show ?thesis
    unfolding py_def by (rule inj_eq)
qed

lemma py_Nil_iff [simp]: "py s = [] \<longleftrightarrow> s = []"
  by (simp add: py_def)

lemma py_append: "py a @ py b = py (a @ b)"
  by (simp add: py_def)

lemma strip_Nil [simp]: "strip [] = []"
  by (simp add: strip_def)

text \<open>
  What \<open>strip\<close> removes is whitespace at the two ends, and all of it: the result
  neither starts nor ends with a whitespace character.
\<close>

lemma strip_decomp:
  "\<exists>a b. s = a @ strip s @ b \<and> list_all isspace a \<and> list_all isspace b"
proof -
  let ?m = "dropWhile isspace s"
  let ?a = "takeWhile isspace s"
  let ?b = "rev (takeWhile isspace (rev ?m))"
  have "?m = rev (rev ?m)"
    by simp
  also have "\<dots> = rev (takeWhile isspace (rev ?m) @ dropWhile isspace (rev ?m))"
    by (simp only: takeWhile_dropWhile_id)
  also have "\<dots> = strip s @ ?b"
    by (simp only: rev_append strip_def)
  finally have "?m = strip s @ ?b" .
  moreover have "s = ?a @ ?m"
    by simp
  ultimately have "s = ?a @ strip s @ ?b"
    by simp
  moreover have "list_all isspace ?a"
    by (simp add: list_all_iff) (meson set_takeWhileD)
  moreover have "list_all isspace ?b"
    by (simp add: list_all_iff) (meson set_takeWhileD)
  ultimately show ?thesis
    by blast
qed

lemma strip_ends:
  assumes "strip s \<noteq> []"
  shows "\<not> isspace (hd (strip s))" and "\<not> isspace (last (strip s))"
proof -
  let ?m = "dropWhile isspace s"
  let ?d = "dropWhile isspace (rev ?m)"
  from assms have d: "?d \<noteq> []"
    by (simp add: strip_def)
  have m: "?m \<noteq> []"
  proof
    assume "?m = []"
    then have "?d = []"
      by (simp only: rev.simps dropWhile.simps)
    with d show False
      by simp
  qed
  from d have "\<not> isspace (hd ?d)"
    by (rule hd_dropWhile)
  with d show "\<not> isspace (last (strip s))"
    by (simp add: strip_def last_rev)
  from m have "\<not> isspace (hd ?m)"
    by (rule hd_dropWhile)
  have "last (rev ?m) = last (takeWhile isspace (rev ?m) @ ?d)"
    by (simp only: takeWhile_dropWhile_id)
  also have "\<dots> = last ?d"
    using d by (simp only: last_append if_False)
  finally have "last ?d = last (rev ?m)"
    by (rule sym)
  with m have "last ?d = hd ?m"
    by (simp add: last_rev)
  with d \<open>\<not> isspace (hd ?m)\<close> show "\<not> isspace (hd (strip s))"
    by (simp add: strip_def hd_rev)
qed

subsection \<open>The rows of DictReader\<close>

lemma length_DictReader:
  "length (DictReader raw) = length (filter (\<lambda>row. row \<noteq> []) (drop 1 raw))"
  by (cases raw) simp_all

lemma fold_restval:
  "fold (\<lambda>key d. d(key \<mapsto> CNone)) ks d k = (if k \<in> set ks then Some CNone else d k)"
  by (induction ks arbitrary: d) auto

lemma fold_zip_other:
  "k \<notin> fst ` set kvs \<Longrightarrow> fold (\<lambda>(k, v) d. d(k \<mapsto> CStr v)) kvs d k = d k"
  by (induction kvs arbitrary: d) auto

lemma dict_row_restval:
  assumes "key \<in> set (drop (length row) fieldnames)"
  shows "dict_row fieldnames row key = Some CNone"
proof -
  from assms have "drop (length row) fieldnames \<noteq> []"
    by auto
  then have "length row < length fieldnames"
    by simp
  with assms show ?thesis
    by (simp add: dict_row_def fold_restval)
qed

lemma dict_row_absent:
  assumes "key \<notin> set fieldnames"
  shows "dict_row fieldnames row key = None"
proof -
  from assms have "key \<notin> fst ` set (zip fieldnames row)"
    by (auto dest: set_zip_leftD)
  then have "fold (\<lambda>(k, v) d. d(k \<mapsto> CStr v)) (zip fieldnames row) Map.empty key = None"
    by (simp add: fold_zip_other)
  moreover from assms have "key \<notin> set (drop (length row) fieldnames)"
    by (auto dest: in_set_dropD)
  ultimately show ?thesis
    by (simp add: dict_row_def fold_restval Let_def)
qed

subsection \<open>The record of one row\<close>

lemma make_rec_Inr:
  assumes "make_rec lib row = Inr r"
  shows "\<exists>atlas title description latitude longitude.
    str_strip (row_get row (py ''AtlasNumber'') []) = Inr atlas \<and>
    str_strip (row_get row (py ''MarkerTitle'') []) = Inr title \<and>
    str_strip (row_get row (py ''MarkerText'') []) = Inr description \<and>
    coordinate lib row (py ''Latitude'') = Inr latitude \<and>
    coordinate lib row (py ''Longitude'') = Inr longitude \<and>
    r = PDict
          [(py ''id'', PStr (py ''tx-thc-'' @ atlas)),
           (py ''title'', PStr title),
           (py ''description'', PStr description),
           (py ''date_installed'', cell_val (row_get row (py ''YearMarkerErected'') [])),
           (py ''coordinates'', PDict
              [(py ''latitude'', latitude),
               (py ''longitude'', longitude)]),
           (py ''address'', PDict
              [(py ''city'', cell_val (row_get row (py ''City'') [])),
               (py ''county'', cell_val (row_get row (py ''County'') [])),
               (py ''state'', PStr (py ''TX''))]),
           (py ''images'', PList []),
           (py ''source'', PList [PDict
              [(py ''name'', PStr (py ''Texas Historical Commission'')),
               (py ''url'', PStr (py ''https://atlas.thc.texas.gov/Data/DataDownload'')),
               (py ''source_id'', cell_val (row_get row (py ''AtlasNumber'') []))]]),
           (py ''type'', PStr (py ''state marker (TX)'')),
           (py ''tags'', PList []),
           (py ''confidence'', PFloat (lit_0_9 lib))]"
  using assms unfolding make_rec_def by (simp split: sum.splits)

lemma str_strip_Inr: "str_strip c = Inr t \<longleftrightarrow> (\<exists>s. c = CStr s \<and> t = strip s)"
  by (cases c) auto

lemma row_get_CStr:
  "row_get row k [] = CStr s \<longleftrightarrow> row k = Some (CStr s) \<or> (row k = None \<and> s = [])"
  by (auto simp: row_get_def split: option.splits)

lemma coordinate_Inl:
  assumes "row k = Some (CStr s)" and "s \<noteq> []" and "py_float lib s = None"
  shows "coordinate lib row k = Inl ValueError"
  using assms by (simp add: coordinate_def)

lemma coordinate_Inr:
  assumes "coordinate lib row k = Inr v"
  shows "(row k = None \<or> row k = Some CNone \<or> row k = Some (CStr []) \<longrightarrow> v = PNone) \<and>
         (\<forall>s. row k = Some (CStr s) \<and> s \<noteq> [] \<longrightarrow> (\<exists>x. py_float lib s = Some x \<and> v = PFloat x))"
  using assms by (auto simp: coordinate_def split: option.splits cell.splits if_splits)

lemma make_rec_bad_coordinate:
  assumes "coordinate lib row (py ''Latitude'') = Inl ValueError
         \<or> coordinate lib row (py ''Longitude'') = Inl ValueError"
  shows "\<exists>e. make_rec lib row = Inl e"
  using assms unfolding make_rec_def by (auto split: sum.splits)

lemma make_rec_constants:
  assumes "make_rec lib row = Inr r"
  shows "dict_get r (py ''images'') = Some (PList [])"
    and "dict_get r (py ''tags'') = Some (PList [])"
    and "dict_get r (py ''type'') = Some (PStr (py ''state marker (TX)''))"
    and "dict_get r (py ''confidence'') = Some (PFloat (lit_0_9 lib))"
    and "\<exists>address. dict_get r (py ''address'') = Some address \<and>
           dict_get address (py ''state'') = Some (PStr (py ''TX''))"
  using make_rec_Inr [OF assms] by (elim exE conjE, simp)+

lemma make_rec_None_strip:
  assumes "row (py ''AtlasNumber'') = Some CNone \<or> row (py ''MarkerTitle'') = Some CNone \<or>
           row (py ''MarkerText'') = Some CNone"
  shows "make_rec lib row = Inl AttributeError"
proof -
  have *: "str_strip c = Inl e \<Longrightarrow> e = AttributeError" for c e
    by (cases c) auto
  from assms have "str_strip (row_get row (py ''AtlasNumber'') []) = Inl AttributeError \<or>
    str_strip (row_get row (py ''MarkerTitle'') []) = Inl AttributeError \<or>
    str_strip (row_get row (py ''MarkerText'') []) = Inl AttributeError"
    by (auto simp: row_get_def)
  then show ?thesis
    unfolding make_rec_def by (auto split: sum.splits dest: *)
qed

lemma make_rec_None_passes:
  assumes "make_rec lib row = Inr r"
  shows "row (py ''YearMarkerErected'') = Some CNone \<longrightarrow>
           dict_get r (py ''date_installed'') = Some PNone"
    and "\<exists>address. dict_get r (py ''address'') = Some address \<and>
           (row (py ''City'') = Some CNone \<longrightarrow> dict_get address (py ''city'') = Some PNone) \<and>
           (row (py ''County'') = Some CNone \<longrightarrow> dict_get address (py ''county'') = Some PNone)"
  using make_rec_Inr [OF assms] by (elim exE conjE, simp add: row_get_def)+

lemma make_rec_keys:
  assumes "make_rec lib row = Inr r"
  shows "dict_keys r = [py ''id'', py ''title'', py ''description'', py ''date_installed'',
           py ''coordinates'', py ''address'', py ''images'', py ''source'', py ''type'',
           py ''tags'', py ''confidence''] \<and>
         map_option dict_keys (dict_get r (py ''coordinates''))
           = Some [py ''latitude'', py ''longitude''] \<and>
         map_option dict_keys (dict_get r (py ''address''))
           = Some [py ''city'', py ''county'', py ''state''] \<and>
         (\<exists>src. dict_get r (py ''source'') = Some (PList [src]) \<and>
            dict_keys src = [py ''name'', py ''url'', py ''source_id''])"
  using make_rec_Inr [OF assms] by (elim exE conjE) simp

subsection \<open>The loop\<close>

lemma convert_rows_Inr_iff:
  "convert_rows lib rows acc = Inr records \<longleftrightarrow>
     (\<exists>rs. records = acc @ rs \<and> map (make_rec lib) rows = map Inr rs)"
proof (induction rows arbitrary: acc)
  case Nil
  then show ?case by auto
next
  case (Cons row rows)
  show ?case
  proof (cases "make_rec lib row")
    case (Inl e)
    then show ?thesis by (auto simp: Cons_eq_map_conv)
  next
    case (Inr r)
    then show ?thesis by (auto simp: Cons.IH Cons_eq_map_conv)
  qed
qed

lemma convert_rows_nth:
  assumes "convert_rows lib rows [] = Inr records"
  shows "length records = length rows"
    and "i < length rows \<Longrightarrow> make_rec lib (rows ! i) = Inr (records ! i)"
proof -
  from assms have eq: "map (make_rec lib) rows = map Inr records"
    by (simp add: convert_rows_Inr_iff)
  then show len: "length records = length rows"
    by (metis length_map)
  assume "i < length rows"
  with eq len show "make_rec lib (rows ! i) = Inr (records ! i)"
    by (metis nth_map)
qed

lemma convert_rows_Inl_iff:
  "convert_rows lib rows acc = Inl e \<longleftrightarrow>
     (\<exists>j<length rows. make_rec lib (rows ! j) = Inl e \<and>
        (\<forall>m<j. \<exists>r. make_rec lib (rows ! m) = Inr r))"
proof (induction rows arbitrary: acc)
  case Nil
  then show ?case by simp
next
  case (Cons row rows)
  show ?case
  proof (cases "make_rec lib row")
    case (Inl e')
    show ?thesis
    proof
      assume "convert_rows lib (row # rows) acc = Inl e"
      with Inl have "make_rec lib ((row # rows) ! 0) = Inl e" by simp
      then show "\<exists>j<length (row # rows). make_rec lib ((row # rows) ! j) = Inl e \<and>
        (\<forall>m<j. \<exists>r. make_rec lib ((row # rows) ! m) = Inr r)"
        by (intro exI[of _ 0]) simp
    next
      assume "\<exists>j<length (row # rows). make_rec lib ((row # rows) ! j) = Inl e \<and>
        (\<forall>m<j. \<exists>r. make_rec lib ((row # rows) ! m) = Inr r)"
      then obtain j where j: "make_rec lib ((row # rows) ! j) = Inl e"
        "\<forall>m<j. \<exists>r. make_rec lib ((row # rows) ! m) = Inr r" by blast
      have "j = 0"
      proof (rule ccontr)
        assume "j \<noteq> 0"
        then have "0 < j" by simp
        with j(2) obtain r where "make_rec lib ((row # rows) ! 0) = Inr r" by blast
        with Inl show False by simp
      qed
      with j(1) Inl show "convert_rows lib (row # rows) acc = Inl e" by simp
    qed
  next
    case (Inr r)
    have "convert_rows lib (row # rows) acc = Inl e \<longleftrightarrow>
       (\<exists>j<length rows. make_rec lib (rows ! j) = Inl e \<and>
        (\<forall>m<j. \<exists>r. make_rec lib (rows ! m) = Inr r))"
      using Inr by (simp add: Cons.IH)
    also have "\<dots> \<longleftrightarrow> (\<exists>j<length (row # rows). make_rec lib ((row # rows) ! j) = Inl e \<and>
        (\<forall>m<j. \<exists>r. make_rec lib ((row # rows) ! m) = Inr r))"
    proof
      assume "\<exists>j<length rows. make_rec lib (rows ! j) = Inl e \<and>
        (\<forall>m<j. \<exists>r. make_rec lib (rows ! m) = Inr r)"
      then obtain j where j: "j < length rows" "make_rec lib (rows ! j) = Inl e"
        "\<forall>m<j. \<exists>r. make_rec lib (rows ! m) = Inr r" by blast
      have "\<forall>m<Suc j. \<exists>r. make_rec lib ((row # rows) ! m) = Inr r"
        using j(3) Inr by (auto simp: nth_Cons split: nat.splits)
      with j(1,2) show "\<exists>j<length (row # rows). make_rec lib ((row # rows) ! j) = Inl e \<and>
        (\<forall>m<j. \<exists>r. make_rec lib ((row # rows) ! m) = Inr r)"
        by (intro exI[of _ "Suc j"]) simp
    next
      assume "\<exists>j<length (row # rows). make_rec lib ((row # rows) ! j) = Inl e \<and>
        (\<forall>m<j. \<exists>r. make_rec lib ((row # rows) ! m) = Inr r)"
      then obtain j where j: "j < length (row # rows)" "make_rec lib ((row # rows) ! j) = Inl e"
        "\<forall>m<j. \<exists>r. make_rec lib ((row # rows) ! m) = Inr r" by blast
      from j(2) Inr obtain j' where j': "j = Suc j'" by (cases j) auto
      have "\<forall>m<j'. \<exists>r. make_rec lib (rows ! m) = Inr r"
      proof (intro allI impI)
        fix m assume "m < j'"
        then have "Suc m < j" using j' by simp
        with j(3) obtain r where "make_rec lib ((row # rows) ! Suc m) = Inr r" by blast
        then show "\<exists>r. make_rec lib (rows ! m) = Inr r" by simp
      qed
      with j j' show "\<exists>j<length rows. make_rec lib (rows ! j) = Inl e \<and>
        (\<forall>m<j. \<exists>r. make_rec lib (rows ! m) = Inr r)"
        by (intro exI[of _ j']) simp
    qed
    finally show ?thesis .
  qed
qed

lemma convert_rows_take:
  assumes "\<forall>m<j. \<exists>r. make_rec lib (rows ! m) = Inr r" and "j \<le> length rows"
  shows "\<exists>built. convert_rows lib (take j rows) [] = Inr built"
proof (cases "convert_rows lib (take j rows) []")
  case (Inl e)
  then obtain m where "m < length (take j rows)" "make_rec lib (take j rows ! m) = Inl e"
    unfolding convert_rows_Inl_iff by blast
  with assms show ?thesis by (metis Inl_Inr_False length_take min.absorb2 nth_take)
next
  case (Inr built)
  then show ?thesis by blast
qed

lemma convert_rows_list_all:
  assumes "convert_rows lib rows [] = Inr records"
    and "\<And>row r. make_rec lib row = Inr r \<Longrightarrow> P r"
  shows "list_all P records"
proof -
  from assms(1) have eq: "map (make_rec lib) rows = map Inr records"
    by (simp add: convert_rows_Inr_iff)
  have "P r" if "r \<in> set records" for r
  proof -
    from that have "Inr r \<in> set (map (make_rec lib) rows)"
      unfolding eq by simp
    then obtain row where "make_rec lib row = Inr r"
      by auto
    then show ?thesis by (rule assms(2))
  qed
  then show ?thesis
    by (simp add: list_all_iff)
qed

subsection \<open>The run\<close>

lemma file_names_distinct [simp]:
  "OUTPUT \<noteq> ZIP" "ZIP \<noteq> OUTPUT" "INPUT \<noteq> OUTPUT" "INPUT \<noteq> ZIP" "OUTPUT \<noteq> INPUT" "ZIP \<noteq> INPUT"
  by (simp_all add: INPUT_def OUTPUT_def ZIP_def)

lemma run_Inr_iff:
  "run lib now fs = (fs', Inr n) \<longleftrightarrow>
     (\<exists>content records. fs INPUT = Some content \<and>
        convert_rows lib (DictReader (csv_reader lib content)) [] = Inr records \<and>
        n = length records \<and>
        fs' = fs(OUTPUT \<mapsto> json_dump_indent2 lib (PList records),
                 ZIP \<mapsto> gzip_wt lib now (json_dump_compact lib (PList records))))"
  by (auto simp: run_def Let_def split: option.splits sum.splits)

lemma run_Inl:
  assumes "fs INPUT = Some content"
    and "convert_rows lib (DictReader (csv_reader lib content)) [] = Inl e"
  shows "run lib now fs = (fs, Inl e)"
  using assms by (simp add: run_def)

lemma run_aborts:
  assumes "fs INPUT = Some content"
    and "i < length (DictReader (csv_reader lib content))"
    and "make_rec lib (DictReader (csv_reader lib content) ! i) = Inl e'"
  shows "\<exists>e. run lib now fs = (fs, Inl e)"
proof (cases "convert_rows lib (DictReader (csv_reader lib content)) []")
  case (Inl e)
  with assms(1) have "run lib now fs = (fs, Inl e)"
    by (intro run_Inl)
  then show ?thesis ..
next
  case (Inr records)
  then have "make_rec lib (DictReader (csv_reader lib content) ! i) = Inr (records ! i)"
    using assms(2) by (rule convert_rows_nth(2))
  with assms(3) show ?thesis by simp
qed

lemma run_same_input:
  assumes "fs1 INPUT = fs2 INPUT"
    and "run lib now1 fs1 = (fs1', Inr n)"
  shows "\<exists>fs2'. run lib now2 fs2 = (fs2', Inr n) \<and> fs2' OUTPUT = fs1' OUTPUT"
proof -
  from assms(2) obtain content records where
    c: "fs1 INPUT = Some content"
    and r: "convert_rows lib (DictReader (csv_reader lib content)) [] = Inr records"
    and n: "n = length records"
    and fs1': "fs1' = fs1(OUTPUT \<mapsto> json_dump_indent2 lib (PList records),
                      ZIP \<mapsto> gzip_wt lib now1 (json_dump_compact lib (PList records)))"
    unfolding run_Inr_iff by blast
  let ?fs2' = "fs2(OUTPUT \<mapsto> json_dump_indent2 lib (PList records),
                   ZIP \<mapsto> gzip_wt lib now2 (json_dump_compact lib (PList records)))"
  from c assms(1) have "fs2 INPUT = Some content"
    by simp
  with r n have "run lib now2 fs2 = (?fs2', Inr n)"
    unfolding run_Inr_iff by blast
  moreover from fs1' have "?fs2' OUTPUT = fs1' OUTPUT"
    by simp
  ultimately show ?thesis
    by blast
qed

lemma run_keeps_input:
  assumes "run lib now fs = (fs', res)"
  shows "fs' INPUT = fs INPUT"
  using assms
  by (auto simp: run_def Let_def split: option.splits sum.splits)

subsection \<open>The sample inputs, evaluated\<close>

lemmas sample_eval = make_rec_def dict_row_def header_def alamo_def padded_def malformed_def
  short3_def short2_def row_get_def coordinate_def sample_lib_def sample_float_def
  strip_def isspace_def py_def

lemma sample_lib_dump: "json_dump_indent2 sample_lib = Indented"
  by (simp add: sample_lib_def)

lemma sample_strip:
  "strip (py '' 77 '') = py ''77''"
  "strip (py ''Old Mill'') = py ''Old Mill''"
  "strip (py '' A mill. '') = py ''A mill.''"
  "strip (py ''5535'') = py ''5535''"
  "strip (py '' Alamo '') = py ''Alamo''"
  "strip (py ''Remember the Alamo.'') = py ''Remember the Alamo.''"
  by (simp_all add: strip_def isspace_def py_def)

lemma alamo_cells:
  "dict_row header alamo (py ''AtlasNumber'') = Some (CStr (py ''5535''))"
  "dict_row header alamo (py ''MarkerTitle'') = Some (CStr (py '' Alamo ''))"
  "dict_row header alamo (py ''MarkerText'') = Some (CStr (py ''Remember the Alamo.''))"
  "dict_row header alamo (py ''YearMarkerErected'') = Some (CStr (py ''1936''))"
  "dict_row header alamo (py ''Latitude'') = Some (CStr (py ''29.4260''))"
  "dict_row header alamo (py ''Longitude'') = Some (CStr (py ''-98.4861''))"
  "dict_row header alamo (py ''City'') = Some (CStr (py ''San Antonio''))"
  "dict_row header alamo (py ''County'') = Some (CStr (py ''Bexar''))"
  by (simp_all add: sample_eval)

lemma padded_cells:
  "dict_row header padded (py ''AtlasNumber'') = Some (CStr (py '' 77 ''))"
  "dict_row header padded (py ''MarkerTitle'') = Some (CStr (py ''Old Mill''))"
  "dict_row header padded (py ''MarkerText'') = Some (CStr (py '' A mill. ''))"
  "dict_row header padded (py ''YearMarkerErected'') = Some (CStr (py '' 1965 ''))"
  "dict_row header padded (py ''City'') = Some (CStr (py '' Waco ''))"
  "dict_row header padded (py ''County'') = Some (CStr (py '' McLennan ''))"
  by (simp_all add: sample_eval)

lemma short_cells:
  "dict_row header short2 (py ''MarkerText'') = Some CNone"
  "dict_row header short3 (py ''YearMarkerErected'') = Some CNone"
  "dict_row header short3 (py ''City'') = Some CNone"
  "dict_row header short3 (py ''County'') = Some CNone"
  by (simp_all add: sample_eval)

lemma sample_rec_ok:
  "\<exists>r. make_rec sample_lib (dict_row header alamo) = Inr r"
  "\<exists>r. make_rec sample_lib (dict_row header padded) = Inr r"
  "\<exists>r. make_rec sample_lib (dict_row header short3) = Inr r"
  by (simp_all add: sample_eval)

lemma make_rec_alamo:
  assumes "py_float lib (py ''29.4260'') = Some la" and "py_float lib (py ''-98.4861'') = Some lo"
  shows "make_rec lib (dict_row header alamo) = Inr (PDict
          [(py ''id'', PStr (py ''tx-thc-5535'')),
           (py ''title'', PStr (py ''Alamo'')),
           (py ''description'', PStr (py ''Remember the Alamo.'')),
           (py ''date_installed'', PStr (py ''1936'')),
           (py ''coordinates'', PDict
              [(py ''latitude'', PFloat la),
               (py ''longitude'', PFloat lo)]),
           (py ''address'', PDict
              [(py ''city'', PStr (py ''San Antonio'')),
               (py ''county'', PStr (py ''Bexar'')),
               (py ''state'', PStr (py ''TX''))]),
           (py ''images'', PList []),
           (py ''source'', PList [PDict
              [(py ''name'', PStr (py ''Texas Historical Commission'')),
               (py ''url'', PStr (py ''https://atlas.thc.texas.gov/Data/DataDownload'')),
               (py ''source_id'', PStr (py ''5535''))]]),
           (py ''type'', PStr (py ''state marker (TX)'')),
           (py ''tags'', PList []),
           (py ''confidence'', PFloat (lit_0_9 lib))])"
  using assms
  by (simp add: make_rec_def row_get_def coordinate_def alamo_cells sample_strip py_append)

lemma sample_run_ok:
  "\<exists>fs'. run sample_lib now (sample_fs (Rows [header, alamo, [], padded])) = (fs', Inr 2)"
  by (simp add: run_def sample_fs_def sample_eval)

section \<open>The claims\<close>

subsection \<open>C1: the id field\<close>

text \<open>
  C1. For every row \<open>i\<close> of a run whose loop completes, the \<open>id\<close> of the \<open>i\<close>-th record
  is the prefix \<open>tx-thc-\<close> followed by the row's \<open>AtlasNumber\<close> value with surrounding
  whitespace stripped, and the bare prefix when the row has no \<open>AtlasNumber\<close> column.
\<close>

theorem C1_id_is_prefix_and_trimmed_atlas_number:
  assumes "convert_rows lib rows [] = Inr records" and "i < length rows"
  shows "((rows ! i) (py ''AtlasNumber'') = None \<and>
          dict_get (records ! i) (py ''id'') = Some (PStr (py ''tx-thc-''))) \<or>
         (\<exists>s. (rows ! i) (py ''AtlasNumber'') = Some (CStr s) \<and>
          dict_get (records ! i) (py ''id'') = Some (PStr (py ''tx-thc-'' @ strip s)))"
proof -
  from assms have "make_rec lib (rows ! i) = Inr (records ! i)"
    by (rule convert_rows_nth(2))
  then obtain atlas where
    atlas: "str_strip (row_get (rows ! i) (py ''AtlasNumber'') []) = Inr atlas"
    and id: "dict_get (records ! i) (py ''id'') = Some (PStr (py ''tx-thc-'' @ atlas))"
    by (auto dest!: make_rec_Inr)
  from atlas obtain s where
    s: "row_get (rows ! i) (py ''AtlasNumber'') [] = CStr s" and "atlas = strip s"
    by (auto simp: str_strip_Inr)
  with id s show ?thesis
    by (auto simp: row_get_CStr)
qed

text \<open>On the sample file the second data row has the AtlasNumber \<open>" 77 "\<close>.\<close>

theorem C1_witness:
  "\<exists>records. convert_rows sample_lib (DictReader [header, alamo, [], padded]) [] = Inr records \<and>
     (DictReader [header, alamo, [], padded] ! 1) (py ''AtlasNumber'') = Some (CStr (py '' 77 '')) \<and>
     dict_get (records ! 1) (py ''id'') = Some (PStr (py ''tx-thc-77''))"
proof -
  obtain records where
    h: "convert_rows sample_lib (DictReader [header, alamo, [], padded]) [] = Inr records"
    by (simp add: sample_eval)
  have len: "1 < length (DictReader [header, alamo, [], padded])"
    by (simp add: alamo_def padded_def)
  have raw: "(DictReader [header, alamo, [], padded] ! 1) (py ''AtlasNumber'')
      = Some (CStr (py '' 77 ''))"
    by (simp add: sample_eval)
  have "strip (py '' 77 '') = py ''77''"
    by (simp add: strip_def isspace_def py_def)
  with C1_id_is_prefix_and_trimmed_atlas_number [OF h len] raw
  have "dict_get (records ! 1) (py ''id'') = Some (PStr (py ''tx-thc-'' @ py ''77''))"
    by auto
  then have "dict_get (records ! 1) (py ''id'') = Some (PStr (py ''tx-thc-77''))"
    by (simp add: py_def)
  with h raw show ?thesis by blast
qed

subsection \<open>C2: one record per data row, in order\<close>

text \<open>
  C2. When the run completes, there is exactly one record per non-blank row after the
  header, the \<open>i\<close>-th record is the record of the \<open>i\<close>-th row dict (nothing dropped,
  nothing reordered), the count reported is their number, and both output files are
  serialisations of this one list.
\<close>

theorem C2_one_record_per_data_row_in_order:
  assumes "run lib now fs = (fs', Inr n)"
  shows "\<exists>content records. fs INPUT = Some content \<and>
      length records = length (filter (\<lambda>row. row \<noteq> []) (drop 1 (csv_reader lib content))) \<and>
      map (make_rec lib) (DictReader (csv_reader lib content)) = map Inr records \<and>
      n = length records \<and>
      fs' OUTPUT = Some (json_dump_indent2 lib (PList records)) \<and>
      fs' ZIP = Some (gzip_wt lib now (json_dump_compact lib (PList records)))"
proof -
  from assms obtain content records where
    c: "fs INPUT = Some content"
    and r: "convert_rows lib (DictReader (csv_reader lib content)) [] = Inr records"
    and n: "n = length records"
    and fs': "fs' = fs(OUTPUT \<mapsto> json_dump_indent2 lib (PList records),
                      ZIP \<mapsto> gzip_wt lib now (json_dump_compact lib (PList records)))"
    unfolding run_Inr_iff by blast
  from r have m: "map (make_rec lib) (DictReader (csv_reader lib content)) = map Inr records"
    by (simp add: convert_rows_Inr_iff)
  from r have "length records = length (DictReader (csv_reader lib content))"
    by (rule convert_rows_nth(1))
  then have l: "length records
      = length (filter (\<lambda>row. row \<noteq> []) (drop 1 (csv_reader lib content)))"
    by (simp only: length_DictReader)
  from fs' have "fs' OUTPUT = Some (json_dump_indent2 lib (PList records))"
    and "fs' ZIP = Some (gzip_wt lib now (json_dump_compact lib (PList records)))"
    by simp_all
  with c l m n show ?thesis by blast
qed

text \<open>The sample file has a blank line between its two data rows; two records come out.\<close>

theorem C2_witness:
  "\<exists>fs' records.
     run sample_lib 5 (sample_fs (Rows [header, alamo, [], padded])) = (fs', Inr 2) \<and>
     length records = 2 \<and>
     map (make_rec sample_lib) [dict_row header alamo, dict_row header padded] = map Inr records \<and>
     fs' OUTPUT = Some (Indented (PList records)) \<and>
     fs' ZIP = Some (Gzipped 5 (Compact (PList records)))"
proof -
  obtain fs' where
    h: "run sample_lib 5 (sample_fs (Rows [header, alamo, [], padded])) = (fs', Inr 2)"
    using sample_run_ok by blast
  have "sample_fs (Rows [header, alamo, [], padded]) INPUT = Some (Rows [header, alamo, [], padded])"
    by (simp add: sample_fs_def)
  with C2_one_record_per_data_row_in_order [OF h] obtain records where
    "2 = length records"
    "map (make_rec sample_lib)
       (DictReader (csv_reader sample_lib (Rows [header, alamo, [], padded]))) = map Inr records"
    "fs' OUTPUT = Some (json_dump_indent2 sample_lib (PList records))"
    "fs' ZIP = Some (gzip_wt sample_lib 5 (json_dump_compact sample_lib (PList records)))"
    by auto
  then have "length records = 2"
    "map (make_rec sample_lib) [dict_row header alamo, dict_row header padded] = map Inr records"
    "fs' OUTPUT = Some (Indented (PList records))"
    "fs' ZIP = Some (Gzipped 5 (Compact (PList records)))"
    by (simp_all add: sample_lib_def alamo_def padded_def)
  with h show ?thesis by blast
qed

subsection \<open>C3: a malformed coordinate aborts the run\<close>

text \<open>
  C3. If row \<open>i\<close> has a Latitude or Longitude that is a non-empty string \<open>float\<close>
  rejects, the run ends with an exception and the file system is the one it started
  with: neither output file is written. The loop stops at the first row \<open>j\<close> that
  raises, which is row \<open>i\<close> or an earlier one; the rows before it were converted, and
  row \<open>i\<close> itself cannot be converted.
\<close>

theorem C3_malformed_coordinate_aborts_before_any_write:
  assumes "fs INPUT = Some content"
    and "rows = DictReader (csv_reader lib content)"
    and "i < length rows"
    and "k = py ''Latitude'' \<or> k = py ''Longitude''"
    and "(rows ! i) k = Some (CStr s)"
    and "s \<noteq> []"
    and "py_float lib s = None"
  shows "\<exists>e j. run lib now fs = (fs, Inl e) \<and>
           j \<le> i \<and> make_rec lib (rows ! j) = Inl e \<and>
           (\<exists>built. convert_rows lib (take j rows) [] = Inr built) \<and>
           (\<exists>e'. make_rec lib (rows ! i) = Inl e')"
proof -
  from assms(5-7) have "coordinate lib (rows ! i) k = Inl ValueError"
    by (rule coordinate_Inl)
  with assms(4) have bad: "\<exists>e'. make_rec lib (rows ! i) = Inl e'"
    by (intro make_rec_bad_coordinate) auto
  obtain e where e: "convert_rows lib rows [] = Inl e"
  proof (cases "convert_rows lib rows []")
    case (Inl e)
    then show ?thesis by (rule that)
  next
    case (Inr records)
    then have "make_rec lib (rows ! i) = Inr (records ! i)"
      using assms(3) by (rule convert_rows_nth(2))
    with bad show ?thesis by auto
  qed
  then obtain j where j: "j < length rows" "make_rec lib (rows ! j) = Inl e"
    "\<forall>m<j. \<exists>r. make_rec lib (rows ! m) = Inr r"
    unfolding convert_rows_Inl_iff by blast
  have "j \<le> i"
  proof (rule ccontr)
    assume "\<not> j \<le> i"
    then have "i < j" by simp
    with j(3) bad show False by auto
  qed
  moreover from j(1,3) have "\<exists>built. convert_rows lib (take j rows) [] = Inr built"
    by (intro convert_rows_take) auto
  moreover from assms(1,2) e have "run lib now fs = (fs, Inl e)"
    by (intro run_Inl) auto
  ultimately show ?thesis using j(2) bad by blast
qed

text \<open>The sample file whose second data row has the latitude \<open>N/A\<close>.\<close>

theorem C3_witness:
  "run sample_lib 5 (sample_fs (Rows [header, alamo, malformed, padded]))
     = (sample_fs (Rows [header, alamo, malformed, padded]), Inl ValueError) \<and>
   (DictReader [header, alamo, malformed, padded] ! 1) (py ''Latitude'') = Some (CStr (py ''N/A'')) \<and>
   py_float sample_lib (py ''N/A'') = None \<and>
   (\<exists>e j. run sample_lib 5 (sample_fs (Rows [header, alamo, malformed, padded]))
       = (sample_fs (Rows [header, alamo, malformed, padded]), Inl e) \<and>
      j \<le> 1 \<and> make_rec sample_lib (DictReader [header, alamo, malformed, padded] ! j) = Inl e \<and>
      (\<exists>built. convert_rows sample_lib (take j (DictReader [header, alamo, malformed, padded])) [] = Inr built) \<and>
      (\<exists>e'. make_rec sample_lib (DictReader [header, alamo, malformed, padded] ! 1) = Inl e'))"
proof -
  let ?raw = "[header, alamo, malformed, padded]"
  have a1: "sample_fs (Rows ?raw) INPUT = Some (Rows ?raw)"
    by (simp add: sample_fs_def)
  have a2: "DictReader ?raw = DictReader (csv_reader sample_lib (Rows ?raw))"
    by (simp add: sample_lib_def)
  have a3: "1 < length (DictReader ?raw)"
    by (simp add: alamo_def malformed_def padded_def)
  have a4: "py ''Latitude'' = py ''Latitude'' \<or> py ''Latitude'' = py ''Longitude''"
    by simp
  have a5: "(DictReader ?raw ! 1) (py ''Latitude'') = Some (CStr (py ''N/A''))"
    by (simp add: sample_eval)
  have a6: "py ''N/A'' \<noteq> []"
    by (simp add: py_def)
  have a7: "py_float sample_lib (py ''N/A'') = None"
    by (simp add: sample_lib_def sample_float_def)
  have r: "run sample_lib 5 (sample_fs (Rows ?raw)) = (sample_fs (Rows ?raw), Inl ValueError)"
    by (simp add: run_def sample_fs_def sample_eval)
  note C3_malformed_coordinate_aborts_before_any_write
    [where lib = sample_lib and now = 5 and fs = "sample_fs (Rows ?raw)"
       and content = "Rows ?raw" and rows = "DictReader ?raw" and i = 1
       and k = "py ''Latitude''" and s = "py ''N/A''", OF a1 a2 a3 a4 a5 a6 a7]
  with r a5 a7 show ?thesis by (intro conjI)
qed

subsection \<open>C4: coordinates are null or the parsed float\<close>

text \<open>
  C4. In the record of a row, \<open>coordinates\<close> is a dict with exactly the keys \<open>latitude\<close>
  and \<open>longitude\<close>, both always present. The latitude is \<open>None\<close> (JSON null, which is
  neither a float nor a missing key) when the row's Latitude is missing, \<open>None\<close> or the
  empty string; when it is a non-empty string, \<open>float\<close> accepted it and the latitude is
  the float it returned, whatever its value. The same holds for the longitude.
\<close>

theorem C4_coordinate_is_null_or_parsed_float:
  assumes "make_rec lib row = Inr r"
  shows "\<exists>la lo.
    dict_get r (py ''coordinates'') = Some (PDict [(py ''latitude'', la), (py ''longitude'', lo)]) \<and>
    (row (py ''Latitude'') = None \<or> row (py ''Latitude'') = Some CNone \<or>
       row (py ''Latitude'') = Some (CStr []) \<longrightarrow> la = PNone) \<and>
    (\<forall>s. row (py ''Latitude'') = Some (CStr s) \<and> s \<noteq> [] \<longrightarrow>
       (\<exists>x. py_float lib s = Some x \<and> la = PFloat x)) \<and>
    (row (py ''Longitude'') = None \<or> row (py ''Longitude'') = Some CNone \<or>
       row (py ''Longitude'') = Some (CStr []) \<longrightarrow> lo = PNone) \<and>
    (\<forall>s. row (py ''Longitude'') = Some (CStr s) \<and> s \<noteq> [] \<longrightarrow>
       (\<exists>x. py_float lib s = Some x \<and> lo = PFloat x))"
proof -
  from assms obtain la lo where
    la: "coordinate lib row (py ''Latitude'') = Inr la"
    and lo: "coordinate lib row (py ''Longitude'') = Inr lo"
    and c: "dict_get r (py ''coordinates'')
        = Some (PDict [(py ''latitude'', la), (py ''longitude'', lo)])"
    by (auto dest!: make_rec_Inr)
  note la' = coordinate_Inr [OF la] and lo' = coordinate_Inr [OF lo]
  show ?thesis
    apply (rule exI [where x = la])
    apply (rule exI [where x = lo])
    using c la' [THEN conjunct1] la' [THEN conjunct2] lo' [THEN conjunct1] lo' [THEN conjunct2]
    by (intro conjI)
qed

text \<open>
  The padded sample row has empty coordinates and gets two nulls; the Alamo row gets
  the two floats of its numerals.
\<close>

theorem C4_witness:
  "(\<exists>r. make_rec sample_lib (dict_row header padded) = Inr r \<and>
      dict_row header padded (py ''Latitude'') = Some (CStr []) \<and>
      dict_row header padded (py ''Longitude'') = Some (CStr []) \<and>
      dict_get r (py ''coordinates'')
        = Some (PDict [(py ''latitude'', PNone), (py ''longitude'', PNone)])) \<and>
   (\<exists>r. make_rec sample_lib (dict_row header alamo) = Inr r \<and>
      dict_row header alamo (py ''Latitude'') = Some (CStr (py ''29.4260'')) \<and>
      dict_row header alamo (py ''Longitude'') = Some (CStr (py ''-98.4861'')) \<and>
      dict_get r (py ''coordinates'')
        = Some (PDict [(py ''latitude'', PFloat (14713 / 500)),
                       (py ''longitude'', PFloat (- 984861 / 10000))]))"
proof (rule conjI)
  obtain r where h: "make_rec sample_lib (dict_row header padded) = Inr r"
    using sample_rec_ok(2) by blast
  have la: "dict_row header padded (py ''Latitude'') = Some (CStr [])"
    and lo: "dict_row header padded (py ''Longitude'') = Some (CStr [])"
    by (simp_all add: sample_eval)
  from C4_coordinate_is_null_or_parsed_float [OF h] la lo
  have "dict_get r (py ''coordinates'')
        = Some (PDict [(py ''latitude'', PNone), (py ''longitude'', PNone)])"
    by auto
  with h la lo show "\<exists>r. make_rec sample_lib (dict_row header padded) = Inr r \<and>
      dict_row header padded (py ''Latitude'') = Some (CStr []) \<and>
      dict_row header padded (py ''Longitude'') = Some (CStr []) \<and>
      dict_get r (py ''coordinates'')
        = Some (PDict [(py ''latitude'', PNone), (py ''longitude'', PNone)])"
    by blast
next
  obtain r where h: "make_rec sample_lib (dict_row header alamo) = Inr r"
    using sample_rec_ok(1) by blast
  have la: "dict_row header alamo (py ''Latitude'') = Some (CStr (py ''29.4260''))"
    and lo: "dict_row header alamo (py ''Longitude'') = Some (CStr (py ''-98.4861''))"
    by (simp_all add: sample_eval)
  have ne: "py ''29.4260'' \<noteq> []" "py ''-98.4861'' \<noteq> []"
    by (simp_all add: py_def)
  have fl: "py_float sample_lib (py ''29.4260'') = Some (14713 / 500)"
    "py_float sample_lib (py ''-98.4861'') = Some (- 984861 / 10000)"
    by (simp_all add: sample_lib_def sample_float_def)
  from C4_coordinate_is_null_or_parsed_float [OF h] la lo ne fl
  have "dict_get r (py ''coordinates'')
        = Some (PDict [(py ''latitude'', PFloat (14713 / 500)),
                       (py ''longitude'', PFloat (- 984861 / 10000))])"
    by auto
  with h la lo show "\<exists>r. make_rec sample_lib (dict_row header alamo) = Inr r \<and>
      dict_row header alamo (py ''Latitude'') = Some (CStr (py ''29.4260'')) \<and>
      dict_row header alamo (py ''Longitude'') = Some (CStr (py ''-98.4861'')) \<and>
      dict_get r (py ''coordinates'')
        = Some (PDict [(py ''latitude'', PFloat (14713 / 500)),
                       (py ''longitude'', PFloat (- 984861 / 10000))])"
    by blast
qed

subsection \<open>C5: which fields are trimmed\<close>

text \<open>
  C5. In the record of a row, the \<open>id\<close>, \<open>title\<close> and \<open>description\<close> hold the stripped
  AtlasNumber, MarkerTitle and MarkerText, while \<open>date_installed\<close>, \<open>city\<close>, \<open>county\<close>
  and the \<open>source_id\<close> of the source entry hold the strings of YearMarkerErected, City,
  County and AtlasNumber exactly as the row has them.
\<close>

theorem C5_only_three_fields_are_trimmed:
  assumes "make_rec lib row = Inr r"
  shows "\<exists>address src.
    (\<forall>s. row (py ''AtlasNumber'') = Some (CStr s) \<longrightarrow>
       dict_get r (py ''id'') = Some (PStr (py ''tx-thc-'' @ strip s))) \<and>
    (\<forall>s. row (py ''MarkerTitle'') = Some (CStr s) \<longrightarrow>
       dict_get r (py ''title'') = Some (PStr (strip s))) \<and>
    (\<forall>s. row (py ''MarkerText'') = Some (CStr s) \<longrightarrow>
       dict_get r (py ''description'') = Some (PStr (strip s))) \<and>
    (\<forall>s. row (py ''YearMarkerErected'') = Some (CStr s) \<longrightarrow>
       dict_get r (py ''date_installed'') = Some (PStr s)) \<and>
    dict_get r (py ''address'') = Some address \<and>
    (\<forall>s. row (py ''City'') = Some (CStr s) \<longrightarrow>
       dict_get address (py ''city'') = Some (PStr s)) \<and>
    (\<forall>s. row (py ''County'') = Some (CStr s) \<longrightarrow>
       dict_get address (py ''county'') = Some (PStr s)) \<and>
    dict_get r (py ''source'') = Some (PList [src]) \<and>
    (\<forall>s. row (py ''AtlasNumber'') = Some (CStr s) \<longrightarrow>
       dict_get src (py ''source_id'') = Some (PStr s))"
proof -
  from make_rec_Inr [OF assms] obtain atlas title description latitude longitude where
    a: "str_strip (row_get row (py ''AtlasNumber'') []) = Inr atlas"
    and t: "str_strip (row_get row (py ''MarkerTitle'') []) = Inr title"
    and d: "str_strip (row_get row (py ''MarkerText'') []) = Inr description"
    and r: "r = PDict
          [(py ''id'', PStr (py ''tx-thc-'' @ atlas)),
           (py ''title'', PStr title),
           (py ''description'', PStr description),
           (py ''date_installed'', cell_val (row_get row (py ''YearMarkerErected'') [])),
           (py ''coordinates'', PDict
              [(py ''latitude'', latitude),
               (py ''longitude'', longitude)]),
           (py ''address'', PDict
              [(py ''city'', cell_val (row_get row (py ''City'') [])),
               (py ''county'', cell_val (row_get row (py ''County'') [])),
               (py ''state'', PStr (py ''TX''))]),
           (py ''images'', PList []),
           (py ''source'', PList [PDict
              [(py ''name'', PStr (py ''Texas Historical Commission'')),
               (py ''url'', PStr (py ''https://atlas.thc.texas.gov/Data/DataDownload'')),
               (py ''source_id'', cell_val (row_get row (py ''AtlasNumber'') []))]]),
           (py ''type'', PStr (py ''state marker (TX)'')),
           (py ''tags'', PList []),
           (py ''confidence'', PFloat (lit_0_9 lib))]"
    by (elim exE conjE) (rule that)
  let ?address = "PDict
              [(py ''city'', cell_val (row_get row (py ''City'') [])),
               (py ''county'', cell_val (row_get row (py ''County'') [])),
               (py ''state'', PStr (py ''TX''))] :: 'a pyval"
  let ?src = "PDict
              [(py ''name'', PStr (py ''Texas Historical Commission'')),
               (py ''url'', PStr (py ''https://atlas.thc.texas.gov/Data/DataDownload'')),
               (py ''source_id'', cell_val (row_get row (py ''AtlasNumber'') []))] :: 'a pyval"
  have 1: "\<forall>s. row (py ''AtlasNumber'') = Some (CStr s) \<longrightarrow>
       dict_get r (py ''id'') = Some (PStr (py ''tx-thc-'' @ strip s))"
    using a r by (auto simp: row_get_def)
  have 2: "\<forall>s. row (py ''MarkerTitle'') = Some (CStr s) \<longrightarrow>
       dict_get r (py ''title'') = Some (PStr (strip s))"
    using t r by (auto simp: row_get_def)
  have 3: "\<forall>s. row (py ''MarkerText'') = Some (CStr s) \<longrightarrow>
       dict_get r (py ''description'') = Some (PStr (strip s))"
    using d r by (auto simp: row_get_def)
  have 4: "\<forall>s. row (py ''YearMarkerErected'') = Some (CStr s) \<longrightarrow>
       dict_get r (py ''date_installed'') = Some (PStr s)"
    using r by (simp add: row_get_def)
  have 5: "dict_get r (py ''address'') = Some ?address"
    using r by simp
  have 6: "\<forall>s. row (py ''City'') = Some (CStr s) \<longrightarrow>
       dict_get ?address (py ''city'') = Some (PStr s)"
    by (simp add: row_get_def)
  have 7: "\<forall>s. row (py ''County'') = Some (CStr s) \<longrightarrow>
       dict_get ?address (py ''county'') = Some (PStr s)"
    by (simp add: row_get_def)
  have 8: "dict_get r (py ''source'') = Some (PList [?src])"
    using r by simp
  have 9: "\<forall>s. row (py ''AtlasNumber'') = Some (CStr s) \<longrightarrow>
       dict_get ?src (py ''source_id'') = Some (PStr s)"
    by (simp add: row_get_def)
  show ?thesis
    apply (rule exI [where x = ?address])
    apply (rule exI [where x = ?src])
    using 1 2 3 4 5 6 7 8 9 by (intro conjI)
qed

text \<open>
  The padded sample row: the three trimmed fields lose their padding, the other four
  keep it.
\<close>

theorem C5_witness:
  "\<exists>r address src.
     make_rec sample_lib (dict_row header padded) = Inr r \<and>
     dict_get r (py ''id'') = Some (PStr (py ''tx-thc-77'')) \<and>
     dict_get r (py ''title'') = Some (PStr (py ''Old Mill'')) \<and>
     dict_get r (py ''description'') = Some (PStr (py ''A mill.'')) \<and>
     dict_get r (py ''date_installed'') = Some (PStr (py '' 1965 '')) \<and>
     dict_get r (py ''address'') = Some address \<and>
     dict_get address (py ''city'') = Some (PStr (py '' Waco '')) \<and>
     dict_get address (py ''county'') = Some (PStr (py '' McLennan '')) \<and>
     dict_get r (py ''source'') = Some (PList [src]) \<and>
     dict_get src (py ''source_id'') = Some (PStr (py '' 77 ''))"
proof -
  obtain r where h: "make_rec sample_lib (dict_row header padded) = Inr r"
    using sample_rec_ok(2) by blast
  from C5_only_three_fields_are_trimmed [OF h] obtain address src where
    1: "\<forall>s. dict_row header padded (py ''AtlasNumber'') = Some (CStr s) \<longrightarrow>
       dict_get r (py ''id'') = Some (PStr (py ''tx-thc-'' @ strip s))"
    and 2: "\<forall>s. dict_row header padded (py ''MarkerTitle'') = Some (CStr s) \<longrightarrow>
       dict_get r (py ''title'') = Some (PStr (strip s))"
    and 3: "\<forall>s. dict_row header padded (py ''MarkerText'') = Some (CStr s) \<longrightarrow>
       dict_get r (py ''description'') = Some (PStr (strip s))"
    and 4: "\<forall>s. dict_row header padded (py ''YearMarkerErected'') = Some (CStr s) \<longrightarrow>
       dict_get r (py ''date_installed'') = Some (PStr s)"
    and 5: "dict_get r (py ''address'') = Some address"
    and 6: "\<forall>s. dict_row header padded (py ''City'') = Some (CStr s) \<longrightarrow>
       dict_get address (py ''city'') = Some (PStr s)"
    and 7: "\<forall>s. dict_row header padded (py ''County'') = Some (CStr s) \<longrightarrow>
       dict_get address (py ''county'') = Some (PStr s)"
    and 8: "dict_get r (py ''source'') = Some (PList [src])"
    and 9: "\<forall>s. dict_row header padded (py ''AtlasNumber'') = Some (CStr s) \<longrightarrow>
       dict_get src (py ''source_id'') = Some (PStr s)"
    by (elim exE conjE) (rule that)
  from 1 padded_cells(1) have "dict_get r (py ''id'') = Some (PStr (py ''tx-thc-'' @ strip (py '' 77 '')))"
    by blast
  then have a: "dict_get r (py ''id'') = Some (PStr (py ''tx-thc-77''))"
    by (simp add: sample_strip py_append)
  from 2 padded_cells(2) have "dict_get r (py ''title'') = Some (PStr (strip (py ''Old Mill'')))"
    by blast
  then have b: "dict_get r (py ''title'') = Some (PStr (py ''Old Mill''))"
    by (simp add: sample_strip)
  from 3 padded_cells(3) have "dict_get r (py ''description'') = Some (PStr (strip (py '' A mill. '')))"
    by blast
  then have c: "dict_get r (py ''description'') = Some (PStr (py ''A mill.''))"
    by (simp add: sample_strip)
  from 4 padded_cells(4) have d: "dict_get r (py ''date_installed'') = Some (PStr (py '' 1965 ''))"
    by blast
  from 6 padded_cells(5) have e: "dict_get address (py ''city'') = Some (PStr (py '' Waco ''))"
    by blast
  from 7 padded_cells(6) have f: "dict_get address (py ''county'') = Some (PStr (py '' McLennan ''))"
    by blast
  from 9 padded_cells(1) have g: "dict_get src (py ''source_id'') = Some (PStr (py '' 77 ''))"
    by blast
  show ?thesis
    apply (rule exI [where x = r])
    apply (rule exI [where x = address])
    apply (rule exI [where x = src])
    using h a b c d 5 e f 8 g by (intro conjI)
qed

subsection \<open>C6: the source entry\<close>

text \<open>
  C6. In the record of a row, \<open>source\<close> is a list of exactly one dict, with the fixed
  \<open>name\<close> and \<open>url\<close> and, as \<open>source_id\<close>, the value of \<open>row.get("AtlasNumber", "")\<close>
  as it is: the row's AtlasNumber string, or the empty string when the row has no such
  column. The \<open>id\<close> of the same record is built from the stripped form of that string.
\<close>

theorem C6_source_is_one_entry_with_the_raw_atlas_number:
  assumes "make_rec lib row = Inr r"
  shows "\<exists>raw.
    (row (py ''AtlasNumber'') = Some (CStr raw) \<or>
       row (py ''AtlasNumber'') = None \<and> raw = []) \<and>
    dict_get r (py ''source'') = Some (PList [PDict
       [(py ''name'', PStr (py ''Texas Historical Commission'')),
        (py ''url'', PStr (py ''https://atlas.thc.texas.gov/Data/DataDownload'')),
        (py ''source_id'', PStr raw)]]) \<and>
    dict_get r (py ''id'') = Some (PStr (py ''tx-thc-'' @ strip raw))"
proof -
  from make_rec_Inr [OF assms] obtain atlas where
    a: "str_strip (row_get row (py ''AtlasNumber'') []) = Inr atlas"
    and id: "dict_get r (py ''id'') = Some (PStr (py ''tx-thc-'' @ atlas))"
    and src: "dict_get r (py ''source'') = Some (PList [PDict
       [(py ''name'', PStr (py ''Texas Historical Commission'')),
        (py ''url'', PStr (py ''https://atlas.thc.texas.gov/Data/DataDownload'')),
        (py ''source_id'', cell_val (row_get row (py ''AtlasNumber'') []))]])"
    by (elim exE conjE) simp
  from a obtain raw where raw: "row_get row (py ''AtlasNumber'') [] = CStr raw"
    and atlas: "atlas = strip raw"
    unfolding str_strip_Inr by (elim exE conjE)
  from raw have "row (py ''AtlasNumber'') = Some (CStr raw) \<or>
       row (py ''AtlasNumber'') = None \<and> raw = []"
    by (simp only: row_get_CStr)
  moreover from src raw have "dict_get r (py ''source'') = Some (PList [PDict
       [(py ''name'', PStr (py ''Texas Historical Commission'')),
        (py ''url'', PStr (py ''https://atlas.thc.texas.gov/Data/DataDownload'')),
        (py ''source_id'', PStr raw)]])"
    by simp
  moreover from id atlas
  have "dict_get r (py ''id'') = Some (PStr (py ''tx-thc-'' @ strip raw))"
    by simp
  ultimately show ?thesis
    by (intro exI [where x = raw] conjI)
qed

text \<open>The padded sample row: \<open>source_id\<close> keeps the spaces that \<open>id\<close> loses.\<close>

theorem C6_witness:
  "\<exists>r. make_rec sample_lib (dict_row header padded) = Inr r \<and>
     dict_row header padded (py ''AtlasNumber'') = Some (CStr (py '' 77 '')) \<and>
     dict_get r (py ''source'') = Some (PList [PDict
       [(py ''name'', PStr (py ''Texas Historical Commission'')),
        (py ''url'', PStr (py ''https://atlas.thc.texas.gov/Data/DataDownload'')),
        (py ''source_id'', PStr (py '' 77 ''))]]) \<and>
     dict_get r (py ''id'') = Some (PStr (py ''tx-thc-77''))"
proof -
  obtain r where h: "make_rec sample_lib (dict_row header padded) = Inr r"
    using sample_rec_ok(2) by blast
  from C6_source_is_one_entry_with_the_raw_atlas_number [OF h] obtain raw where
    raw: "dict_row header padded (py ''AtlasNumber'') = Some (CStr raw) \<or>
       dict_row header padded (py ''AtlasNumber'') = None \<and> raw = []"
    and src: "dict_get r (py ''source'') = Some (PList [PDict
       [(py ''name'', PStr (py ''Texas Historical Commission'')),
        (py ''url'', PStr (py ''https://atlas.thc.texas.gov/Data/DataDownload'')),
        (py ''source_id'', PStr raw)]])"
    and id: "dict_get r (py ''id'') = Some (PStr (py ''tx-thc-'' @ strip raw))"
    by (elim exE conjE) (rule that)
  from raw have "raw = py '' 77 ''"
    by (simp add: padded_cells)
  with src id have "dict_get r (py ''source'') = Some (PList [PDict
       [(py ''name'', PStr (py ''Texas Historical Commission'')),
        (py ''url'', PStr (py ''https://atlas.thc.texas.gov/Data/DataDownload'')),
        (py ''source_id'', PStr (py '' 77 ''))]])"
    and "dict_get r (py ''id'') = Some (PStr (py ''tx-thc-77''))"
    by (simp_all add: sample_strip py_append)
  with h padded_cells(1) show ?thesis
    by (intro exI [where x = r] conjI)
qed

subsection \<open>C7: the constant fields and the Alamo scenario\<close>

text \<open>
  C7. The record of every row has \<open>images\<close> and \<open>tags\<close> equal to the empty list,
  \<open>type\<close> equal to \<open>state marker (TX)\<close>, \<open>confidence\<close> equal to the float literal
  \<open>0.9\<close>, and \<open>state\<close> equal to \<open>TX\<close> inside \<open>address\<close>. The Alamo row, given that
  \<open>float\<close> accepts its two numerals, yields the record with the id \<open>tx-thc-5535\<close>, the
  title \<open>Alamo\<close>, the description \<open>Remember the Alamo.\<close>, the installation date
  \<open>1936\<close>, the coordinates \<open>float("29.4260")\<close> and \<open>float("-98.4861")\<close>, the address
  San Antonio, Bexar, TX, and the constant fields.
\<close>

theorem C7_constant_fields_and_alamo_scenario:
  "(make_rec lib row = Inr r \<longrightarrow>
      dict_get r (py ''images'') = Some (PList []) \<and>
      dict_get r (py ''tags'') = Some (PList []) \<and>
      dict_get r (py ''type'') = Some (PStr (py ''state marker (TX)'')) \<and>
      dict_get r (py ''confidence'') = Some (PFloat (lit_0_9 lib)) \<and>
      (\<exists>address. dict_get r (py ''address'') = Some address \<and>
         dict_get address (py ''state'') = Some (PStr (py ''TX'')))) \<and>
   (py_float lib (py ''29.4260'') = Some la \<and> py_float lib (py ''-98.4861'') = Some lo \<longrightarrow>
      (\<exists>a. make_rec lib (dict_row header alamo) = Inr a \<and>
         dict_get a (py ''id'') = Some (PStr (py ''tx-thc-5535'')) \<and>
         dict_get a (py ''title'') = Some (PStr (py ''Alamo'')) \<and>
         dict_get a (py ''description'') = Some (PStr (py ''Remember the Alamo.'')) \<and>
         dict_get a (py ''date_installed'') = Some (PStr (py ''1936'')) \<and>
         dict_get a (py ''coordinates'')
           = Some (PDict [(py ''latitude'', PFloat la), (py ''longitude'', PFloat lo)]) \<and>
         dict_get a (py ''address'')
           = Some (PDict [(py ''city'', PStr (py ''San Antonio'')),
                          (py ''county'', PStr (py ''Bexar'')),
                          (py ''state'', PStr (py ''TX''))]) \<and>
         dict_get a (py ''images'') = Some (PList []) \<and>
         dict_get a (py ''type'') = Some (PStr (py ''state marker (TX)'')) \<and>
         dict_get a (py ''tags'') = Some (PList []) \<and>
         dict_get a (py ''confidence'') = Some (PFloat (lit_0_9 lib))))"
proof (intro conjI impI)
  assume "py_float lib (py ''29.4260'') = Some la \<and> py_float lib (py ''-98.4861'') = Some lo"
  then have a: "make_rec lib (dict_row header alamo) = Inr (PDict
          [(py ''id'', PStr (py ''tx-thc-5535'')),
           (py ''title'', PStr (py ''Alamo'')),
           (py ''description'', PStr (py ''Remember the Alamo.'')),
           (py ''date_installed'', PStr (py ''1936'')),
           (py ''coordinates'', PDict
              [(py ''latitude'', PFloat la),
               (py ''longitude'', PFloat lo)]),
           (py ''address'', PDict
              [(py ''city'', PStr (py ''San Antonio'')),
               (py ''county'', PStr (py ''Bexar'')),
               (py ''state'', PStr (py ''TX''))]),
           (py ''images'', PList []),
           (py ''source'', PList [PDict
              [(py ''name'', PStr (py ''Texas Historical Commission'')),
               (py ''url'', PStr (py ''https://atlas.thc.texas.gov/Data/DataDownload'')),
               (py ''source_id'', PStr (py ''5535''))]]),
           (py ''type'', PStr (py ''state marker (TX)'')),
           (py ''tags'', PList []),
           (py ''confidence'', PFloat (lit_0_9 lib))])"
    by (intro make_rec_alamo) simp_all
  show "\<exists>a. make_rec lib (dict_row header alamo) = Inr a \<and>
         dict_get a (py ''id'') = Some (PStr (py ''tx-thc-5535'')) \<and>
         dict_get a (py ''title'') = Some (PStr (py ''Alamo'')) \<and>
         dict_get a (py ''description'') = Some (PStr (py ''Remember the Alamo.'')) \<and>
         dict_get a (py ''date_installed'') = Some (PStr (py ''1936'')) \<and>
         dict_get a (py ''coordinates'')
           = Some (PDict [(py ''latitude'', PFloat la), (py ''longitude'', PFloat lo)]) \<and>
         dict_get a (py ''address'')
           = Some (PDict [(py ''city'', PStr (py ''San Antonio'')),
                          (py ''county'', PStr (py ''Bexar'')),
                          (py ''state'', PStr (py ''TX''))]) \<and>
         dict_get a (py ''images'') = Some (PList []) \<and>
         dict_get a (py ''type'') = Some (PStr (py ''state marker (TX)'')) \<and>
         dict_get a (py ''tags'') = Some (PList []) \<and>
         dict_get a (py ''confidence'') = Some (PFloat (lit_0_9 lib))"
    by (rule exI, rule conjI, rule a) simp
qed (simp_all add: make_rec_constants)

text \<open>
  With the sample library, whose \<open>float\<close> reads the two numerals as \<open>29.426\<close> and
  \<open>-98.4861\<close> and whose literal \<open>0.9\<close> is nine tenths.
\<close>

theorem C7_witness:
  "(\<exists>r. make_rec sample_lib (dict_row header padded) = Inr r \<and>
      dict_get r (py ''images'') = Some (PList []) \<and>
      dict_get r (py ''tags'') = Some (PList []) \<and>
      dict_get r (py ''type'') = Some (PStr (py ''state marker (TX)'')) \<and>
      dict_get r (py ''confidence'') = Some (PFloat (9 / 10)) \<and>
      (\<exists>address. dict_get r (py ''address'') = Some address \<and>
         dict_get address (py ''state'') = Some (PStr (py ''TX'')))) \<and>
   py_float sample_lib (py ''29.4260'') = Some (14713 / 500) \<and>
   py_float sample_lib (py ''-98.4861'') = Some (- 984861 / 10000) \<and>
   (\<exists>a. make_rec sample_lib (dict_row header alamo) = Inr a \<and>
      dict_get a (py ''id'') = Some (PStr (py ''tx-thc-5535'')) \<and>
      dict_get a (py ''title'') = Some (PStr (py ''Alamo'')) \<and>
      dict_get a (py ''description'') = Some (PStr (py ''Remember the Alamo.'')) \<and>
      dict_get a (py ''date_installed'') = Some (PStr (py ''1936'')) \<and>
      dict_get a (py ''coordinates'')
        = Some (PDict [(py ''latitude'', PFloat (14713 / 500)),
                       (py ''longitude'', PFloat (- 984861 / 10000))]) \<and>
      dict_get a (py ''address'')
        = Some (PDict [(py ''city'', PStr (py ''San Antonio'')),
                       (py ''county'', PStr (py ''Bexar'')),
                       (py ''state'', PStr (py ''TX''))]) \<and>
      dict_get a (py ''images'') = Some (PList []) \<and>
      dict_get a (py ''type'') = Some (PStr (py ''state marker (TX)'')) \<and>
      dict_get a (py ''tags'') = Some (PList []) \<and>
      dict_get a (py ''confidence'') = Some (PFloat (9 / 10)))"
proof -
  obtain r where h: "make_rec sample_lib (dict_row header padded) = Inr r"
    using sample_rec_ok(2) by blast
  have la: "py_float sample_lib (py ''29.4260'') = Some (14713 / 500)"
    and lo: "py_float sample_lib (py ''-98.4861'') = Some (- 984861 / 10000)"
    by (simp_all add: sample_lib_def sample_float_def)
  have c: "lit_0_9 sample_lib = 9 / 10"
    by (simp add: sample_lib_def)
  note inst = C7_constant_fields_and_alamo_scenario
    [where lib = sample_lib and row = "dict_row header padded" and r = r
       and la = "14713 / 500" and lo = "- 984861 / 10000"]
  note p1 = inst [THEN conjunct1, THEN mp, OF h, unfolded c]
  note p2 = inst [THEN conjunct2, THEN mp, OF conjI [OF la lo], unfolded c]
  from conjI [OF h p1] have "\<exists>r. make_rec sample_lib (dict_row header padded) = Inr r \<and>
      dict_get r (py ''images'') = Some (PList []) \<and>
      dict_get r (py ''tags'') = Some (PList []) \<and>
      dict_get r (py ''type'') = Some (PStr (py ''state marker (TX)'')) \<and>
      dict_get r (py ''confidence'') = Some (PFloat (9 / 10)) \<and>
      (\<exists>address. dict_get r (py ''address'') = Some address \<and>
         dict_get address (py ''state'') = Some (PStr (py ''TX'')))"
    by (rule exI [where x = r])
  with la lo p2 show ?thesis
    by (intro conjI)
qed

subsection \<open>C10: rows shorter than the header\<close>

text \<open>
  C10. \<open>DictReader\<close> gives every column that a row is too short to reach the value
  \<open>None\<close>; only a column that the header does not name is missing from the row dict,
  so that \<open>row.get(key, "")\<close> gives the empty string. A row dict whose AtlasNumber,
  MarkerTitle or MarkerText is \<open>None\<close> makes the record construction raise
  \<open>AttributeError\<close>, and a run whose input has a row that raises ends with an exception
  and an unchanged file system. In the record of a row, a YearMarkerErected, City or
  County that is \<open>None\<close> appears as \<open>None\<close> (JSON null), not as the empty string.
\<close>

theorem C10_short_row_gives_None_not_empty_string:
  "(key \<in> set (drop (length row) fieldnames) \<longrightarrow> dict_row fieldnames row key = Some CNone) \<and>
   (key \<notin> set fieldnames \<longrightarrow>
      dict_row fieldnames row key = None \<and> row_get (dict_row fieldnames row) key [] = CStr []) \<and>
   (d (py ''AtlasNumber'') = Some CNone \<or> d (py ''MarkerTitle'') = Some CNone \<or>
      d (py ''MarkerText'') = Some CNone \<longrightarrow> make_rec lib d = Inl AttributeError) \<and>
   (fs INPUT = Some content \<and> i < length (DictReader (csv_reader lib content)) \<and>
      make_rec lib (DictReader (csv_reader lib content) ! i) = Inl AttributeError \<longrightarrow>
      (\<exists>e. run lib now fs = (fs, Inl e))) \<and>
   (make_rec lib d = Inr r \<longrightarrow>
      (d (py ''YearMarkerErected'') = Some CNone \<longrightarrow>
         dict_get r (py ''date_installed'') = Some PNone) \<and>
      (\<exists>address. dict_get r (py ''address'') = Some address \<and>
         (d (py ''City'') = Some CNone \<longrightarrow> dict_get address (py ''city'') = Some PNone) \<and>
         (d (py ''County'') = Some CNone \<longrightarrow> dict_get address (py ''county'') = Some PNone)))"
proof (intro conjI impI)
  assume "key \<in> set (drop (length row) fieldnames)"
  then show "dict_row fieldnames row key = Some CNone"
    by (rule dict_row_restval)
next
  assume "key \<notin> set fieldnames"
  then show "dict_row fieldnames row key = None"
    by (rule dict_row_absent)
  then show "row_get (dict_row fieldnames row) key [] = CStr []"
    by (simp add: row_get_def)
next
  assume "d (py ''AtlasNumber'') = Some CNone \<or> d (py ''MarkerTitle'') = Some CNone \<or>
      d (py ''MarkerText'') = Some CNone"
  then show "make_rec lib d = Inl AttributeError"
    by (rule make_rec_None_strip)
next
  assume "fs INPUT = Some content \<and> i < length (DictReader (csv_reader lib content)) \<and>
      make_rec lib (DictReader (csv_reader lib content) ! i) = Inl AttributeError"
  then show "\<exists>e. run lib now fs = (fs, Inl e)"
    by (intro run_aborts [where i = i and content = content and e' = AttributeError]) simp_all
next
  assume r: "make_rec lib d = Inr r"
  then show "\<exists>address. dict_get r (py ''address'') = Some address \<and>
         (d (py ''City'') = Some CNone \<longrightarrow> dict_get address (py ''city'') = Some PNone) \<and>
         (d (py ''County'') = Some CNone \<longrightarrow> dict_get address (py ''county'') = Some PNone)"
    by (rule make_rec_None_passes(2))
  assume "d (py ''YearMarkerErected'') = Some CNone"
  with make_rec_None_passes(1) [OF r]
  show "dict_get r (py ''date_installed'') = Some PNone"
    by (rule mp)
qed

text \<open>
  In the sample header a row of two fields leaves MarkerText \<open>None\<close>, so its record
  cannot be built and the run on a file with that row aborts; a row of three fields
  gets a record whose date, city and county are null. \<open>Notes\<close> is no column of the
  header.
\<close>

theorem C10_witness:
  "py ''MarkerText'' \<in> set (drop (length short2) header) \<and>
   dict_row header short2 (py ''MarkerText'') = Some CNone \<and>
   py ''Notes'' \<notin> set header \<and>
   dict_row header short2 (py ''Notes'') = None \<and>
   row_get (dict_row header short2) (py ''Notes'') [] = CStr [] \<and>
   make_rec sample_lib (dict_row header short2) = Inl AttributeError \<and>
   (\<exists>e. run sample_lib 5 (sample_fs (Rows [header, alamo, short2]))
         = (sample_fs (Rows [header, alamo, short2]), Inl e)) \<and>
   (\<exists>r address. make_rec sample_lib (dict_row header short3) = Inr r \<and>
      dict_get r (py ''date_installed'') = Some PNone \<and>
      dict_get r (py ''address'') = Some address \<and>
      dict_get address (py ''city'') = Some PNone \<and>
      dict_get address (py ''county'') = Some PNone)"
proof -
  let ?fs = "sample_fs (Rows [header, alamo, short2])"
  obtain r where h: "make_rec sample_lib (dict_row header short3) = Inr r"
    using sample_rec_ok(3) by blast
  note short = C10_short_row_gives_None_not_empty_string
    [where key = "py ''MarkerText''" and row = short2 and fieldnames = header
       and d = "dict_row header short2" and lib = sample_lib and fs = ?fs
       and content = "Rows [header, alamo, short2]" and i = 1 and now = 5]
  note other = C10_short_row_gives_None_not_empty_string
    [where key = "py ''Notes''" and row = short2 and fieldnames = header
       and d = "dict_row header short3" and lib = sample_lib and r = r]
  have a1: "py ''MarkerText'' \<in> set (drop (length short2) header)"
    by (simp add: short2_def header_def)
  from short [THEN conjunct1] a1
  have a2: "dict_row header short2 (py ''MarkerText'') = Some CNone"
    by (rule mp)
  have b1: "py ''Notes'' \<notin> set header"
    by (simp add: header_def)
  from other [THEN conjunct2, THEN conjunct1] b1
  have b2: "dict_row header short2 (py ''Notes'') = None \<and>
    row_get (dict_row header short2) (py ''Notes'') [] = CStr []"
    by (rule mp)
  from short [THEN conjunct2, THEN conjunct2, THEN conjunct1] a2
  have c: "make_rec sample_lib (dict_row header short2) = Inl AttributeError"
    by blast
  have "?fs INPUT = Some (Rows [header, alamo, short2])"
    by (simp add: sample_fs_def)
  moreover have "1 < length (DictReader (csv_reader sample_lib (Rows [header, alamo, short2])))"
    by (simp add: sample_lib_def alamo_def short2_def)
  moreover have "DictReader (csv_reader sample_lib (Rows [header, alamo, short2])) ! 1
      = dict_row header short2"
    by (simp add: sample_lib_def alamo_def short2_def)
  ultimately have "?fs INPUT = Some (Rows [header, alamo, short2]) \<and>
      1 < length (DictReader (csv_reader sample_lib (Rows [header, alamo, short2]))) \<and>
      make_rec sample_lib (DictReader (csv_reader sample_lib (Rows [header, alamo, short2])) ! 1)
        = Inl AttributeError"
    using c by simp
  with short [THEN conjunct2, THEN conjunct2, THEN conjunct2, THEN conjunct1]
  have e: "\<exists>e. run sample_lib 5 ?fs = (?fs, Inl e)"
    by (rule mp)
  note pass = other [THEN conjunct2, THEN conjunct2, THEN conjunct2, THEN conjunct2,
    THEN mp, OF h]
  from pass [THEN conjunct1] short_cells(2)
  have f1: "dict_get r (py ''date_installed'') = Some PNone"
    by (rule mp)
  from pass [THEN conjunct2] obtain address where
    f2: "dict_get r (py ''address'') = Some address"
    and f3: "dict_row header short3 (py ''City'') = Some CNone \<longrightarrow>
       dict_get address (py ''city'') = Some PNone"
    and f4: "dict_row header short3 (py ''County'') = Some CNone \<longrightarrow>
       dict_get address (py ''county'') = Some PNone"
    by (elim exE conjE)
  from f3 short_cells(3) have f3': "dict_get address (py ''city'') = Some PNone"
    by (rule mp)
  from f4 short_cells(4) have f4': "dict_get address (py ''county'') = Some PNone"
    by (rule mp)
  have g: "\<exists>r address. make_rec sample_lib (dict_row header short3) = Inr r \<and>
      dict_get r (py ''date_installed'') = Some PNone \<and>
      dict_get r (py ''address'') = Some address \<and>
      dict_get address (py ''city'') = Some PNone \<and>
      dict_get address (py ''county'') = Some PNone"
    apply (rule exI [where x = r])
    apply (rule exI [where x = address])
    using h f1 f2 f3' f4' by (intro conjI)
  from a1 a2 b1 b2 [THEN conjunct1] b2 [THEN conjunct2] c e g show ?thesis
    by (intro conjI)
qed

subsection \<open>C8: both files decode to the same value\<close>

text \<open>
  C8. After a run that completes, both output files exist, and for any decoders that
  invert the library's encoders (a JSON reader that returns the value \<open>json.dump\<close> was
  given, in either configuration, and a gzip reader that returns the text that was
  written), decoding the plain file and decoding the decompressed gzip file give the
  same value: the list of the run's records.
\<close>

theorem C8_both_outputs_decode_to_the_same_records:
  assumes "run lib now fs = (fs', Inr n)"
    and "\<forall>v. loads (json_dump_indent2 lib v) = Some v"
    and "\<forall>v. loads (json_dump_compact lib v) = Some v"
    and "\<forall>t b. gunzip (gzip_wt lib t b) = Some b"
  shows "\<exists>plain gz text records.
    fs' OUTPUT = Some plain \<and> fs' ZIP = Some gz \<and> gunzip gz = Some text \<and>
    loads plain = Some (PList records) \<and> loads text = Some (PList records) \<and>
    length records = n"
proof -
  from assms(1) obtain records where
    n: "n = length records"
    and fs': "fs' = fs(OUTPUT \<mapsto> json_dump_indent2 lib (PList records),
                      ZIP \<mapsto> gzip_wt lib now (json_dump_compact lib (PList records)))"
    unfolding run_Inr_iff by blast
  let ?plain = "json_dump_indent2 lib (PList records)"
  let ?text = "json_dump_compact lib (PList records)"
  from fs' have "fs' OUTPUT = Some ?plain" and "fs' ZIP = Some (gzip_wt lib now ?text)"
    by simp_all
  moreover from assms(4) have "gunzip (gzip_wt lib now ?text) = Some ?text"
    by simp
  moreover from assms(2,3) have "loads ?plain = Some (PList records)"
    and "loads ?text = Some (PList records)"
    by simp_all
  ultimately show ?thesis
    using n by blast
qed

text \<open>On the sample file, with the decoders of the free library.\<close>

theorem C8_witness:
  "\<exists>fs' plain gz text records.
     run sample_lib 5 (sample_fs (Rows [header, alamo, [], padded])) = (fs', Inr 2) \<and>
     fs' OUTPUT = Some plain \<and> fs' ZIP = Some gz \<and> sample_gunzip gz = Some text \<and>
     sample_loads plain = Some (PList records) \<and> sample_loads text = Some (PList records) \<and>
     length records = 2"
proof -
  obtain fs' where
    h: "run sample_lib 5 (sample_fs (Rows [header, alamo, [], padded])) = (fs', Inr 2)"
    using sample_run_ok by blast
  have 1: "\<forall>v. sample_loads (json_dump_indent2 sample_lib v) = Some v"
    and 2: "\<forall>v. sample_loads (json_dump_compact sample_lib v) = Some v"
    and 3: "\<forall>t b. sample_gunzip (gzip_wt sample_lib t b) = Some b"
    by (simp_all add: sample_lib_def)
  from C8_both_outputs_decode_to_the_same_records [OF h 1 2 3] h show ?thesis
    by blast
qed

subsection \<open>C9: the plain output is a function of the input file alone\<close>

text \<open>
  C9. If a run completes, then a run started at any other time on any file system
  that holds the same input file completes too, reports the same count and writes the
  same plain JSON file; in particular a second run on the file system the first one
  left does. The plain file is the indented dump of the record list, and the keys of
  every record are, in this order, \<open>id\<close>, \<open>title\<close>, \<open>description\<close>, \<open>date_installed\<close>,
  \<open>coordinates\<close> (\<open>latitude\<close>, \<open>longitude\<close>), \<open>address\<close> (\<open>city\<close>, \<open>county\<close>, \<open>state\<close>),
  \<open>images\<close>, \<open>source\<close> (\<open>name\<close>, \<open>url\<close>, \<open>source_id\<close>), \<open>type\<close>, \<open>tags\<close>, \<open>confidence\<close>.
\<close>

theorem C9_plain_output_is_determined_by_the_input:
  assumes "run lib now fs = (fs', Inr n)"
    and "other INPUT = fs INPUT"
  shows "(\<exists>other'. run lib later other = (other', Inr n) \<and> other' OUTPUT = fs' OUTPUT) \<and>
    (\<exists>fs''. run lib later fs' = (fs'', Inr n) \<and> fs'' OUTPUT = fs' OUTPUT) \<and>
    (\<exists>records. fs' OUTPUT = Some (json_dump_indent2 lib (PList records)) \<and>
       list_all (\<lambda>r.
         dict_keys r = [py ''id'', py ''title'', py ''description'', py ''date_installed'',
           py ''coordinates'', py ''address'', py ''images'', py ''source'', py ''type'',
           py ''tags'', py ''confidence''] \<and>
         map_option dict_keys (dict_get r (py ''coordinates''))
           = Some [py ''latitude'', py ''longitude''] \<and>
         map_option dict_keys (dict_get r (py ''address''))
           = Some [py ''city'', py ''county'', py ''state''] \<and>
         (\<exists>src. dict_get r (py ''source'') = Some (PList [src]) \<and>
            dict_keys src = [py ''name'', py ''url'', py ''source_id''])) records)"
proof (intro conjI)
  from assms(2) have "fs INPUT = other INPUT"
    by simp
  then show "\<exists>other'. run lib later other = (other', Inr n) \<and> other' OUTPUT = fs' OUTPUT"
    using assms(1) by (rule run_same_input)
next
  from assms(1) have "fs' INPUT = fs INPUT"
    by (rule run_keeps_input)
  then have "fs INPUT = fs' INPUT"
    by simp
  then show "\<exists>fs''. run lib later fs' = (fs'', Inr n) \<and> fs'' OUTPUT = fs' OUTPUT"
    using assms(1) by (rule run_same_input)
next
  from assms(1) obtain content records where
    r: "convert_rows lib (DictReader (csv_reader lib content)) [] = Inr records"
    and fs': "fs' = fs(OUTPUT \<mapsto> json_dump_indent2 lib (PList records),
                      ZIP \<mapsto> gzip_wt lib now (json_dump_compact lib (PList records)))"
    unfolding run_Inr_iff by blast
  from fs' have out: "fs' OUTPUT = Some (json_dump_indent2 lib (PList records))"
    by simp
  from r have keys: "list_all (\<lambda>r.
         dict_keys r = [py ''id'', py ''title'', py ''description'', py ''date_installed'',
           py ''coordinates'', py ''address'', py ''images'', py ''source'', py ''type'',
           py ''tags'', py ''confidence''] \<and>
         map_option dict_keys (dict_get r (py ''coordinates''))
           = Some [py ''latitude'', py ''longitude''] \<and>
         map_option dict_keys (dict_get r (py ''address''))
           = Some [py ''city'', py ''county'', py ''state''] \<and>
         (\<exists>src. dict_get r (py ''source'') = Some (PList [src]) \<and>
            dict_keys src = [py ''name'', py ''url'', py ''source_id''])) records"
    by (rule convert_rows_list_all) (rule make_rec_keys)
  from conjI [OF out keys]
  show "\<exists>records. fs' OUTPUT = Some (json_dump_indent2 lib (PList records)) \<and>
       list_all (\<lambda>r.
         dict_keys r = [py ''id'', py ''title'', py ''description'', py ''date_installed'',
           py ''coordinates'', py ''address'', py ''images'', py ''source'', py ''type'',
           py ''tags'', py ''confidence''] \<and>
         map_option dict_keys (dict_get r (py ''coordinates''))
           = Some [py ''latitude'', py ''longitude''] \<and>
         map_option dict_keys (dict_get r (py ''address''))
           = Some [py ''city'', py ''county'', py ''state''] \<and>
         (\<exists>src. dict_get r (py ''source'') = Some (PList [src]) \<and>
            dict_keys src = [py ''name'', py ''url'', py ''source_id''])) records"
    by (rule exI [where x = records])
qed

text \<open>
  The sample file, once alone on the file system and once beside a stale output file
  of an earlier run, at two different times.
\<close>

theorem C9_witness:
  "\<exists>fs1' fs2' fs1'' records.
     run sample_lib 5 (sample_fs (Rows [header, alamo, [], padded])) = (fs1', Inr 2) \<and>
     run sample_lib 9 ((sample_fs (Rows [header, alamo, [], padded]))(OUTPUT \<mapsto> Compact PNone))
       = (fs2', Inr 2) \<and>
     fs2' OUTPUT = fs1' OUTPUT \<and>
     run sample_lib 9 fs1' = (fs1'', Inr 2) \<and>
     fs1'' OUTPUT = fs1' OUTPUT \<and>
     fs1' OUTPUT = Some (Indented (PList records)) \<and>
     list_all (\<lambda>r.
         dict_keys r = [py ''id'', py ''title'', py ''description'', py ''date_installed'',
           py ''coordinates'', py ''address'', py ''images'', py ''source'', py ''type'',
           py ''tags'', py ''confidence''] \<and>
         map_option dict_keys (dict_get r (py ''coordinates''))
           = Some [py ''latitude'', py ''longitude''] \<and>
         map_option dict_keys (dict_get r (py ''address''))
           = Some [py ''city'', py ''county'', py ''state''] \<and>
         (\<exists>src. dict_get r (py ''source'') = Some (PList [src]) \<and>
            dict_keys src = [py ''name'', py ''url'', py ''source_id''])) records"
proof -
  let ?one = "sample_fs (Rows [header, alamo, [], padded])"
  let ?two = "?one(OUTPUT \<mapsto> Compact PNone)"
  obtain fs1' where h: "run sample_lib 5 ?one = (fs1', Inr 2)"
    using sample_run_ok by blast
  have same: "?two INPUT = ?one INPUT"
    by simp
  note inst = C9_plain_output_is_determined_by_the_input
    [where other = ?two and later = 9, OF h same, unfolded sample_lib_dump]
  from inst [THEN conjunct1] obtain fs2' where
    a: "run sample_lib 9 ?two = (fs2', Inr 2)" and b: "fs2' OUTPUT = fs1' OUTPUT"
    by (elim exE conjE)
  from inst [THEN conjunct2, THEN conjunct1] obtain fs1'' where
    c: "run sample_lib 9 fs1' = (fs1'', Inr 2)" and d: "fs1'' OUTPUT = fs1' OUTPUT"
    by (elim exE conjE)
  from inst [THEN conjunct2, THEN conjunct2] obtain records where
    e: "fs1' OUTPUT = Some (Indented (PList records))"
    and f: "list_all (\<lambda>r.
         dict_keys r = [py ''id'', py ''title'', py ''description'', py ''date_installed'',
           py ''coordinates'', py ''address'', py ''images'', py ''source'', py ''type'',
           py ''tags'', py ''confidence''] \<and>
         map_option dict_keys (dict_get r (py ''coordinates''))
           = Some [py ''latitude'', py ''longitude''] \<and>
         map_option dict_keys (dict_get r (py ''address''))
           = Some [py ''city'', py ''county'', py ''state''] \<and>
         (\<exists>src. dict_get r (py ''source'') = Some (PList [src]) \<and>
            dict_keys src = [py ''name'', py ''url'', py ''source_id''])) records"
    by (elim exE conjE)
  show ?thesis
    apply (rule exI [where x = fs1'])
    apply (rule exI [where x = fs2'])
    apply (rule exI [where x = fs1''])
    apply (rule exI [where x = records])
    using h a b c d e f by (intro conjI)
qed

end
